theory Spec2Isabelle
  imports Main "HOL-Library.Word"
begin

section \<open>CEP validation: the pattern \<^verbatim>\<open>^\d{8}$\<close>\<close>

text \<open>
  Both services validate a CEP with \<^verbatim>\<open>regexp.MatchString(`^\d{8}$`, cep)\<close>. Only the
  constructs of that pattern are modelled: the two text anchors, the Perl class
  \<^verbatim>\<open>\d\<close> (in Go's RE2 syntax exactly the ASCII range \<^verbatim>\<open>[0-9]\<close>), concatenation and
  counted repetition. A Go string is a byte sequence and so is a \<^typ>\<open>string\<close> here. The
  pattern has no construct that accepts a byte outside ASCII, so matching byte by byte
  and matching rune by rune agree on it.
\<close>

datatype regexp = BeginText | EndText | PerlDigit | Seq regexp regexp | Repeat regexp nat

definition is_perl_digit :: "char \<Rightarrow> bool" where
  "is_perl_digit c = (48 \<le> (of_char c :: nat) \<and> (of_char c :: nat) \<le> 57)"

text \<open>A cursor is a position in the text together with the bytes still ahead of it.\<close>

type_synonym cursor = "nat \<times> string"

primrec iterate :: "nat \<Rightarrow> (cursor \<Rightarrow> cursor list) \<Rightarrow> cursor list \<Rightarrow> cursor list" where
  "iterate 0 f curs = curs"
| "iterate (Suc n) f curs = iterate n f (concat (map f curs))"

text \<open>\<open>run re cur\<close> lists the cursors at which a match of \<open>re\<close> started at \<open>cur\<close> can end.\<close>

primrec run :: "regexp \<Rightarrow> cursor \<Rightarrow> cursor list" where
  "run BeginText cur = (if fst cur = 0 then [cur] else [])"
| "run EndText cur = (if snd cur = [] then [cur] else [])"
| "run PerlDigit cur =
     (case snd cur of
        [] \<Rightarrow> []
      | c # cs \<Rightarrow> if is_perl_digit c then [(Suc (fst cur), cs)] else [])"
| "run (Seq r1 r2) cur = concat (map (run r2) (run r1 cur))"
| "run (Repeat r n) cur = iterate n (run r) [cur]"

text \<open>
  \<^verbatim>\<open>regexp.MatchString\<close> reports whether the text contains a match: a match may start at
  any position, and the anchors of the pattern restrict where.
\<close>

definition MatchString :: "regexp \<Rightarrow> string \<Rightarrow> bool" where
  "MatchString re s = list_ex (\<lambda>k. run re (k, drop k s) \<noteq> []) [0..<Suc (length s)]"

definition cep_pattern :: regexp where
  "cep_pattern = Seq BeginText (Seq (Repeat PerlDigit 8) EndText)"

text \<open>
  \<^verbatim>\<open>func isValidCep(cep string) bool\<close>, the same in Service A and Service B. The pattern
  compiles, so the error result that the source discards is always nil.
\<close>

definition isValidCep :: "string \<Rightarrow> bool" where
  "isValidCep cep = MatchString cep_pattern cep"

section \<open>Values of the Go runtime and standard library\<close>

text \<open>
  A Go \<^verbatim>\<open>error\<close> is observed by the handlers only through its message. The model keeps
  where the error was made: by a standard-library call (\<^verbatim>\<open>net/http\<close>, \<^verbatim>\<open>net/url\<close>,
  \<^verbatim>\<open>encoding/json\<close>, \<^verbatim>\<open>io\<close>) or by \<^verbatim>\<open>fmt.Errorf\<close> in the program itself.
\<close>

datatype go_error = LibError string | Errorf string

fun Error :: "go_error \<Rightarrow> string" where
  "Error (LibError m) = m"
| "Error (Errorf m) = m"

text \<open>
  A \<^verbatim>\<open>float64\<close> is its 64-bit IEEE 754 pattern. The arithmetic on it is not modelled:
  it is a parameter of the model (see \<open>stdlib\<close> below). The three constants of the
  conversion are the patterns of the binary64 values nearest to \<open>1.8\<close>, \<open>32\<close> and \<open>273\<close>.
\<close>

datatype float64 = Float64 "64 word"

definition float64_1_8 :: float64 where
  "float64_1_8 = Float64 0x3FFCCCCCCCCCCCCD"

definition float64_32 :: float64 where
  "float64_32 = Float64 0x4040000000000000"

definition float64_273 :: float64 where
  "float64_273 = Float64 0x4071100000000000"

text \<open>The verb \<^verbatim>\<open>%d\<close> of \<^verbatim>\<open>fmt\<close> on an \<^verbatim>\<open>int\<close>: decimal digits, with a sign when negative.\<close>

fun digits :: "nat \<Rightarrow> string" where
  "digits n = (if n < 10 then [''0123456789'' ! n]
               else digits (n div 10) @ [''0123456789'' ! (n mod 10)])"

declare digits.simps [simp del]

definition format_d :: "int \<Rightarrow> string" where
  "format_d i = (if i < 0 then CHR ''-'' # digits (nat (- i)) else digits (nat i))"

subsection \<open>The data structures of the two programs\<close>

text \<open>\<^verbatim>\<open>type CepInput struct\<close> (Service A).\<close>

record CepInput =
  Cep :: string

text \<open>\<^verbatim>\<open>type Local struct\<close>, \<^verbatim>\<open>type Clima struct\<close>, \<^verbatim>\<open>type TemperaturaFinal struct\<close> (Service B).\<close>

record Local =
  Localidade :: string
  Erro :: bool

record Clima =
  Current_TempC :: float64

record TemperaturaFinal =
  City :: string
  TempC :: float64
  TempF :: float64
  TempK :: float64

subsection \<open>HTTP messages\<close>

text \<open>
  The incoming \<^verbatim>\<open>*http.Request\<close>: its method, its URL path, and what \<^verbatim>\<open>io.ReadAll(r.Body)\<close>
  yields when the handler reads the body (an error message, or the bytes).
\<close>

record Request =
  Method :: string
  URL_Path :: string
  Body_ReadAll :: "string + string"

text \<open>A request built by \<^verbatim>\<open>http.NewRequestWithContext\<close> for an outgoing call (the body is nil).\<close>

record Outbound =
  out_Method :: string
  out_URL :: string

text \<open>The \<^verbatim>\<open>*http.Response\<close> of an outgoing call, with its body as the bytes received.\<close>

record Response =
  StatusCode :: int
  Header :: "string \<rightharpoonup> string list"
  Body :: string

text \<open>
  The network: what \<^verbatim>\<open>client.Do\<close> returns for a request, an error message or a
  response. Timeouts of the client are among the errors.
\<close>

type_synonym transport = "Outbound \<Rightarrow> string + Response"

text \<open>
  The \<^verbatim>\<open>http.ResponseWriter\<close>, as a recorder of what the handler writes: the header map,
  the status once it is written, and the bytes of the body.
\<close>

record ResponseWriter =
  Headers :: "string \<rightharpoonup> string list"
  Status :: "int option"
  Written :: string

definition new_writer :: ResponseWriter where
  "new_writer = \<lparr>Headers = Map.empty, Status = None, Written = []\<rparr>"

text \<open>
  \<^verbatim>\<open>Header.Get\<close>, \<^verbatim>\<open>Header.Set\<close>, \<^verbatim>\<open>Header.Del\<close>. Every key the programs use
  (\<^verbatim>\<open>Content-Type\<close>, \<^verbatim>\<open>Content-Length\<close>, \<^verbatim>\<open>X-Content-Type-Options\<close>) is already in
  canonical form.
\<close>

definition Header_Get :: "(string \<rightharpoonup> string list) \<Rightarrow> string \<Rightarrow> string" where
  "Header_Get h k = (case h k of Some (v # _) \<Rightarrow> v | _ \<Rightarrow> [])"

definition Header_Set :: "ResponseWriter \<Rightarrow> string \<Rightarrow> string \<Rightarrow> ResponseWriter" where
  "Header_Set w k v = w\<lparr>Headers := (Headers w)(k \<mapsto> [v])\<rparr>"

definition Header_Del :: "ResponseWriter \<Rightarrow> string \<Rightarrow> ResponseWriter" where
  "Header_Del w k = w\<lparr>Headers := (Headers w)(k := None)\<rparr>"

text \<open>
  \<^verbatim>\<open>w.WriteHeader\<close>: the first call fixes the status, a later call is ignored. The
  library panics on a code that does not have three digits (\<open>checkWriteHeaderCode\<close>).
  Every code that the programs write as a constant has three digits; the one code that
  comes from outside is the one \<open>forwardRequestToServiceB\<close> relays, and the model has
  the panic there.
\<close>

definition checkWriteHeaderCode :: "int \<Rightarrow> bool" where
  "checkWriteHeaderCode code = (100 \<le> code \<and> code \<le> 999)"

definition WriteHeader :: "ResponseWriter \<Rightarrow> int \<Rightarrow> ResponseWriter" where
  "WriteHeader w code = (case Status w of None \<Rightarrow> w\<lparr>Status := Some code\<rparr> | Some _ \<Rightarrow> w)"

text \<open>\<^verbatim>\<open>w.Write\<close>: writes status 200 first when no status was written.\<close>

definition Write :: "ResponseWriter \<Rightarrow> string \<Rightarrow> ResponseWriter" where
  "Write w bs = (let w' = WriteHeader w 200 in w'\<lparr>Written := Written w' @ bs\<rparr>)"

text \<open>\<^verbatim>\<open>fmt.Fprintln(w, s)\<close>: the text and a newline, in one write.\<close>

definition Fprintln :: "ResponseWriter \<Rightarrow> string \<Rightarrow> ResponseWriter" where
  "Fprintln w s = Write w (s @ [CHR 0x0A])"

text \<open>
  \<^verbatim>\<open>http.Error(w, error, code)\<close>: drops \<^verbatim>\<open>Content-Length\<close>, sets the content type to plain
  text and \<^verbatim>\<open>nosniff\<close>, writes the status, then prints the message as a line.
\<close>

definition http_Error :: "ResponseWriter \<Rightarrow> string \<Rightarrow> int \<Rightarrow> ResponseWriter" where
  "http_Error w msg code =
     (let w1 = Header_Del w ''Content-Length'';
          w2 = Header_Set w1 ''Content-Type'' ''text/plain; charset=utf-8'';
          w3 = Header_Set w2 ''X-Content-Type-Options'' ''nosniff'';
          w4 = WriteHeader w3 code
      in Fprintln w4 msg)"

text \<open>\<^verbatim>\<open>io.Copy(w, resp.Body)\<close>: an empty body gives no write at all.\<close>

definition io_Copy :: "ResponseWriter \<Rightarrow> string \<Rightarrow> ResponseWriter" where
  "io_Copy w bs = (if bs = [] then w else Write w bs)"

text \<open>The status the client receives: 200 when the handler wrote none.\<close>

definition sent_status :: "ResponseWriter \<Rightarrow> int" where
  "sent_status w = (case Status w of None \<Rightarrow> 200 | Some c \<Rightarrow> c)"

subsection \<open>Library functions taken as parameters\<close>

text \<open>
  The functions of the standard library whose results the programs depend on and whose
  code is not part of the repository. \<open>url_Parse_fails u\<close> is the message of the error
  when the URL \<open>u\<close> does not parse; the decoders and the encoder return an error message
  or their result. \<open>f64_mul_add x y z\<close> is \<^verbatim>\<open>x*y + z\<close> on \<^verbatim>\<open>float64\<close> as the compiler
  emits it (Go lets an implementation fuse the two operations into one rounding), and
  \<open>f64_add\<close> is \<^verbatim>\<open>x + y\<close>.
\<close>

record stdlib =
  url_Parse_fails :: "string \<Rightarrow> string option"
  url_QueryEscape :: "string \<Rightarrow> string"
  json_Unmarshal_CepInput :: "string \<Rightarrow> string + CepInput"
  json_Decode_Local :: "string \<Rightarrow> string + Local"
  json_Decode_Clima :: "string \<Rightarrow> string + Clima"
  json_Encode :: "TemperaturaFinal \<Rightarrow> string + string"
  f64_mul_add :: "float64 \<Rightarrow> float64 \<Rightarrow> float64 \<Rightarrow> float64"
  f64_add :: "float64 \<Rightarrow> float64 \<Rightarrow> float64"

text \<open>
  \<^verbatim>\<open>http.NewRequestWithContext(ctx, method, url, nil)\<close> with a valid method and a context
  that is not nil: it fails exactly when the URL does not parse.
\<close>

definition NewRequestWithContext :: "stdlib \<Rightarrow> string \<Rightarrow> string \<Rightarrow> go_error + Outbound" where
  "NewRequestWithContext L method url =
     (case url_Parse_fails L url of
        Some m \<Rightarrow> Inl (LibError m)
      | None \<Rightarrow> Inr \<lparr>out_Method = method, out_URL = url\<rparr>)"

text \<open>
  \<^verbatim>\<open>json.NewEncoder(w).Encode(v)\<close>: the encoding is written in one write; when the value
  cannot be encoded nothing is written. The source discards the error.
\<close>

definition json_Encoder_Encode :: "stdlib \<Rightarrow> ResponseWriter \<Rightarrow> TemperaturaFinal \<Rightarrow> ResponseWriter" where
  "json_Encoder_Encode L w v = (case json_Encode L v of Inl _ \<Rightarrow> w | Inr bs \<Rightarrow> Write w bs)"

subsection \<open>Tracing and other effects\<close>

text \<open>
  The global \<^verbatim>\<open>tracer\<close> is set by \<^verbatim>\<open>initTracer\<close> before either server starts to listen.
  Its state, and every other effect of a handler on the world, is a log of events: the
  handlers take the log and return it extended. \<open>ClientDo n q\<close> is one call of
  \<^verbatim>\<open>client.Do\<close> on the request \<open>q\<close> by a client with a timeout of \<open>n\<close> seconds.
\<close>

datatype attr_value = StringValue string | Float64Value float64

datatype event =
    SpanStart string
  | SpanEnd string
  | SetAttributes string attr_value
  | RecordError go_error
  | ReadAll
  | CloseRequestBody
  | ClientDo nat Outbound
  | CloseResponseBody

section \<open>Service A\<close>

text \<open>
  \<^verbatim>\<open>func forwardRequestToServiceB(w http.ResponseWriter, r *http.Request, cep string)\<close>.
  The process environment is the map \<open>env\<close>, read by \<^verbatim>\<open>os.LookupEnv\<close>; \<open>targetURL\<close> is
  the address the function builds with \<^verbatim>\<open>fmt.Sprintf("%s/weather/%s", serviceB_URL, cep)\<close>.
  A panic is the result \<open>Inl\<close>; the deferred calls still run.
\<close>

definition targetURL :: "(string \<rightharpoonup> string) \<Rightarrow> string \<Rightarrow> string" where
  "targetURL env cep =
     (let serviceB_URL = (case env ''SERVICE_B_URL'' of Some v \<Rightarrow> v | None \<Rightarrow> ''http://service-b:8081'')
      in serviceB_URL @ ''/weather/'' @ cep)"

definition forwardRequestToServiceB ::
  "stdlib \<Rightarrow> (string \<rightharpoonup> string) \<Rightarrow> transport \<Rightarrow> ResponseWriter \<Rightarrow> string \<Rightarrow> event list
     \<Rightarrow> (string + ResponseWriter) \<times> event list" where
  "forwardRequestToServiceB L env net w cep t =
     (let t1 = t @ [SpanStart ''forwardRequestToServiceB'']
      in case NewRequestWithContext L ''GET'' (targetURL env cep) of
           Inl err \<Rightarrow>
             (Inr (http_Error w ''Failed to create request for service B'' 500),
              t1 @ [SpanEnd ''forwardRequestToServiceB''])
         | Inr req \<Rightarrow>
             (case net req of
                Inl err \<Rightarrow>
                  (Inr (http_Error w ''Failed to call service B'' 500),
                   t1 @ [ClientDo 10 req, SpanEnd ''forwardRequestToServiceB''])
              | Inr resp \<Rightarrow>
                  (let t2 = t1 @ [ClientDo 10 req, CloseResponseBody,
                                  SpanEnd ''forwardRequestToServiceB''];
                       w1 = Header_Set w ''Content-Type'' (Header_Get (Header resp) ''Content-Type'')
                   in if \<not> checkWriteHeaderCode (StatusCode resp) then
                        (Inl (''invalid WriteHeader code '' @ format_d (StatusCode resp)), t2)
                      else
                        (let w2 = WriteHeader w1 (StatusCode resp);
                             w3 = io_Copy w2 (Body resp)
                         in (Inr w3, t2)))))"

text \<open>\<^verbatim>\<open>func handleCepRequest(w http.ResponseWriter, r *http.Request)\<close>.\<close>

definition handleCepRequest ::
  "stdlib \<Rightarrow> (string \<rightharpoonup> string) \<Rightarrow> transport \<Rightarrow> ResponseWriter \<Rightarrow> Request \<Rightarrow> event list
     \<Rightarrow> (string + ResponseWriter) \<times> event list" where
  "handleCepRequest L env net w r t =
     (if Method r \<noteq> ''POST'' then (Inr (http_Error w ''Method not allowed'' 405), t)
      else
        let t1 = t @ [SpanStart ''handleCepRequest'', ReadAll] in
        case Body_ReadAll r of
          Inl err \<Rightarrow>
            (Inr (http_Error w ''Error reading request body'' 400),
             t1 @ [SpanEnd ''handleCepRequest''])
        | Inr body \<Rightarrow>
            (case json_Unmarshal_CepInput L body of
               Inl err \<Rightarrow>
                 (Inr (http_Error w ''Error decoding JSON'' 400),
                  t1 @ [CloseRequestBody, SpanEnd ''handleCepRequest''])
             | Inr input \<Rightarrow>
                 if \<not> isValidCep (Cep input) then
                   (Inr (Write (WriteHeader w 422) ''invalid zipcode''),
                    t1 @ [CloseRequestBody, SpanEnd ''handleCepRequest''])
                 else
                   (case forwardRequestToServiceB L env net w (Cep input) t1 of
                      (res, t2) \<Rightarrow> (res, t2 @ [CloseRequestBody, SpanEnd ''handleCepRequest'']))))"

section \<open>Service B\<close>

text \<open>
  \<^verbatim>\<open>func SearchCep(ctx context.Context, cep string) (*Local, error)\<close>, with the address
  it builds by \<^verbatim>\<open>fmt.Sprintf("https://viacep.com.br/ws/%s/json/", cep)\<close>.
\<close>

definition viacep_url :: "string \<Rightarrow> string" where
  "viacep_url cep = ''https://viacep.com.br/ws/'' @ cep @ ''/json/''"

definition SearchCep ::
  "stdlib \<Rightarrow> transport \<Rightarrow> string \<Rightarrow> event list \<Rightarrow> (go_error + Local) \<times> event list" where
  "SearchCep L net cep t =
     (let t1 = t @ [SpanStart ''get-location-from-cep-api (SearchCep)''];
          span_End = (\<lambda>t'. t' @ [SpanEnd ''get-location-from-cep-api (SearchCep)''])
      in case NewRequestWithContext L ''GET'' (viacep_url cep) of
           Inl err \<Rightarrow> (Inl err, span_End (t1 @ [RecordError err]))
         | Inr req \<Rightarrow>
             (case net req of
                Inl m \<Rightarrow>
                  (Inl (LibError m), span_End (t1 @ [ClientDo 5 req, RecordError (LibError m)]))
              | Inr resp \<Rightarrow>
                  (case json_Decode_Local L (Body resp) of
                     Inl m \<Rightarrow>
                       (Inl (LibError m),
                        span_End (t1 @ [ClientDo 5 req, RecordError (LibError m), CloseResponseBody]))
                   | Inr local \<Rightarrow>
                       if Erro local then
                         (Inl (Errorf ''can not find zipcode''),
                          span_End (t1 @ [ClientDo 5 req, CloseResponseBody]))
                       else
                         (Inr local, span_End (t1 @ [ClientDo 5 req, CloseResponseBody])))))"

text \<open>
  \<^verbatim>\<open>func GetWeather(ctx context.Context, city string) (*Clima, error)\<close>. The global
  \<^verbatim>\<open>weatherApiKey\<close>, set once by \<^verbatim>\<open>main\<close>, is the parameter \<open>key\<close>. The address is
  built from the key as it is and from the city escaped by \<^verbatim>\<open>url.QueryEscape\<close>.
\<close>

definition weather_url :: "stdlib \<Rightarrow> string \<Rightarrow> string \<Rightarrow> string" where
  "weather_url L key city =
     (let encodedCity = url_QueryEscape L city
      in ''https://api.weatherapi.com/v1/current.json?key='' @ key @ ''&q='' @ encodedCity
         @ ''&aqi=no'')"

definition GetWeather ::
  "stdlib \<Rightarrow> string \<Rightarrow> transport \<Rightarrow> string \<Rightarrow> event list \<Rightarrow> (go_error + Clima) \<times> event list" where
  "GetWeather L key net city t =
     (let t1 = t @ [SpanStart ''get-weather-from-weather-api (GetWeather)''];
          span_End = (\<lambda>t'. t' @ [SpanEnd ''get-weather-from-weather-api (GetWeather)'']);
          url = weather_url L key city
      in case NewRequestWithContext L ''GET'' url of
           Inl err \<Rightarrow> (Inl err, span_End (t1 @ [RecordError err]))
         | Inr req \<Rightarrow>
             (case net req of
                Inl m \<Rightarrow>
                  (Inl (LibError m), span_End (t1 @ [ClientDo 5 req, RecordError (LibError m)]))
              | Inr resp \<Rightarrow>
                  if StatusCode resp \<noteq> 200 then
                    (let err = Errorf (''weather API returned status '' @ format_d (StatusCode resp))
                     in (Inl err, span_End (t1 @ [ClientDo 5 req, RecordError err, CloseResponseBody])))
                  else
                    (case json_Decode_Clima L (Body resp) of
                       Inl m \<Rightarrow>
                         (Inl (LibError m),
                          span_End (t1 @ [ClientDo 5 req, RecordError (LibError m), CloseResponseBody]))
                     | Inr clima \<Rightarrow>
                         (Inr clima, span_End (t1 @ [ClientDo 5 req, CloseResponseBody])))))"

text \<open>
  \<^verbatim>\<open>func weatherHandler(w http.ResponseWriter, r *http.Request)\<close>. The slice expression
  \<^verbatim>\<open>r.URL.Path[len("/weather/"):]\<close> drops nine bytes whatever they are and panics on a
  shorter path; the deferred \<^verbatim>\<open>span.End()\<close> still runs. A panic is the result \<open>Inl\<close>.
\<close>

definition weatherHandler ::
  "stdlib \<Rightarrow> string \<Rightarrow> transport \<Rightarrow> ResponseWriter \<Rightarrow> Request \<Rightarrow> event list
     \<Rightarrow> (string + ResponseWriter) \<times> event list" where
  "weatherHandler L key net w r t =
     (let t1 = t @ [SpanStart ''weatherHandler-orchestration''];
          span_End = (\<lambda>t'. t' @ [SpanEnd ''weatherHandler-orchestration''])
      in if length (URL_Path r) < length ''/weather/'' then
           (Inl ''slice bounds out of range'', span_End t1)
         else
           let cep = drop (length ''/weather/'') (URL_Path r) in
           if \<not> isValidCep cep then
             (Inr (http_Error w ''invalid zipcode'' 422), span_End t1)
           else
             (case SearchCep L net cep (t1 @ [SetAttributes ''cep.input'' (StringValue cep)]) of
                (Inl err, t2) \<Rightarrow>
                  (Inr (if Error err = ''can not find zipcode''
                        then http_Error w (Error err) 404
                        else http_Error w (Error err) 500),
                   span_End t2)
              | (Inr local, t2) \<Rightarrow>
                  (case GetWeather L key net (Localidade local)
                          (t2 @ [SetAttributes ''city.name'' (StringValue (Localidade local))]) of
                     (Inl err, t3) \<Rightarrow> (Inr (http_Error w (Error err) 500), span_End t3)
                   | (Inr clima, t3) \<Rightarrow>
                       (let tempC = Current_TempC clima;
                            tempF = f64_mul_add L tempC float64_1_8 float64_32;
                            tempK = f64_add L tempC float64_273;
                            response = \<lparr>City = Localidade local, TempC = tempC,
                                        TempF = tempF, TempK = tempK\<rparr>;
                            w1 = Header_Set w ''Content-Type'' ''application/json'';
                            w2 = WriteHeader w1 200;
                            w3 = json_Encoder_Encode L w2 response
                        in (Inr w3,
                            span_End (t3 @ [SetAttributes ''temperature.celsius''
                                              (Float64Value tempC)]))))))"

section \<open>Observations\<close>

text \<open>The outgoing calls recorded in a log, each with the timeout of its client.\<close>

fun client_calls :: "event list \<Rightarrow> (nat \<times> Outbound) list" where
  "client_calls [] = []"
| "client_calls (ClientDo n q # es) = (n, q) # client_calls es"
| "client_calls (_ # es) = client_calls es"

text \<open>The response of a handler, when the handler did not panic.\<close>

definition served :: "(string + ResponseWriter) \<times> event list \<Rightarrow> ResponseWriter option" where
  "served res = (case fst res of Inl _ \<Rightarrow> None | Inr w \<Rightarrow> Some w)"

text \<open>
  What a dependency answers to a run: the result of \<^verbatim>\<open>client.Do\<close> for the request the run
  builds. A request that cannot be built is an answer too: nothing for Service A, whose
  response does not show why, and the error for Service B, which prints it.
\<close>

definition downstream_answer ::
  "stdlib \<Rightarrow> (string \<rightharpoonup> string) \<Rightarrow> transport \<Rightarrow> string \<Rightarrow> (string + Response) option" where
  "downstream_answer L env net cep =
     (case NewRequestWithContext L ''GET'' (targetURL env cep) of
        Inl _ \<Rightarrow> None
      | Inr req \<Rightarrow> Some (net req))"

definition lookup_answer :: "stdlib \<Rightarrow> transport \<Rightarrow> string \<Rightarrow> go_error + (string + Response)" where
  "lookup_answer L net cep =
     (case NewRequestWithContext L ''GET'' (viacep_url cep) of
        Inl e \<Rightarrow> Inl e
      | Inr req \<Rightarrow> Inr (net req))"

definition weather_answer ::
  "stdlib \<Rightarrow> string \<Rightarrow> transport \<Rightarrow> string \<Rightarrow> go_error + (string + Response)" where
  "weather_answer L key net city =
     (case NewRequestWithContext L ''GET'' (weather_url L key city) of
        Inl e \<Rightarrow> Inl e
      | Inr req \<Rightarrow> Inr (net req))"

text \<open>
  The log after the process has served a list of requests one after the other, each
  with a fresh writer.
\<close>

primrec after_A ::
  "stdlib \<Rightarrow> (string \<rightharpoonup> string) \<Rightarrow> transport \<Rightarrow> Request list \<Rightarrow> event list \<Rightarrow> event list" where
  "after_A L env net [] t = t"
| "after_A L env net (r # rs) t = after_A L env net rs (snd (handleCepRequest L env net new_writer r t))"

primrec after_B ::
  "stdlib \<Rightarrow> string \<Rightarrow> transport \<Rightarrow> Request list \<Rightarrow> event list \<Rightarrow> event list" where
  "after_B L key net [] t = t"
| "after_B L key net (r # rs) t = after_B L key net rs (snd (weatherHandler L key net new_writer r t))"

section \<open>Test doubles\<close>

text \<open>
  A library and a network for concrete runs, after the mocked transports of the
  repository's tests. The lookup service of the double knows four codes, its weather
  service answers 503 for the one city it is asked about, and Service B answers Service A
  for one code. No run of the double reaches the conversion or the encoder, whose
  entries are placeholders.
\<close>

definition query_escape :: "string \<Rightarrow> string" where
  "query_escape s =
     concat (map (\<lambda>c. if c = CHR '' '' then ''+''
                       else if c \<in> set ''ABCDEFGHIJKLMNOPQRSTUVWXYZabcdefghijklmnopqrstuvwxyz0123456789-_.~''
                       then [c]
                       else [CHR ''%'', ''0123456789ABCDEF'' ! (of_char c div 16),
                             ''0123456789ABCDEF'' ! (of_char c mod 16)]) s)"

definition test_lib :: stdlib where
  \<open>test_lib =
     \<lparr>url_Parse_fails =
        (\<lambda>u. if list_ex (\<lambda>c. (of_char c :: nat) < 32) u
              then Some ''net/url: invalid control character in URL'' else None),
      url_QueryEscape = query_escape,
      json_Unmarshal_CepInput =
        (\<lambda>b. if b = ''{"cep": "01001000"}'' then Inr \<lparr>Cep = ''01001000''\<rparr>
              else if b = ''{"cep": "99999999"}'' then Inr \<lparr>Cep = ''99999999''\<rparr>
              else if b = ''{"cep": "123"}'' then Inr \<lparr>Cep = ''123''\<rparr>
              else Inl ''unexpected end of JSON input''),
      json_Decode_Local =
        (\<lambda>b. if b = ''{"localidade": "Porto Alegre"}''
              then Inr \<lparr>Localidade = ''Porto Alegre'', Erro = False\<rparr>
              else if b = ''{"erro": true}'' then Inr \<lparr>Localidade = [], Erro = True\<rparr>
              else if b = ''{}'' then Inr \<lparr>Localidade = [], Erro = False\<rparr>
              else Inl ''unexpected EOF''),
      json_Decode_Clima =
        (\<lambda>b. Inl ''unexpected EOF''),
      json_Encode = (\<lambda>v. Inl ''json: unsupported value''),
      f64_mul_add = (\<lambda>x y z. z),
      f64_add = (\<lambda>x y. y)\<rparr>\<close>

definition test_net :: transport where
  \<open>test_net q =
     (if out_URL q = ''https://viacep.com.br/ws/90010000/json/''
      then Inr \<lparr>StatusCode = 200, Header = Map.empty, Body = ''{"localidade": "Porto Alegre"}''\<rparr>
      else if out_URL q = ''https://viacep.com.br/ws/99999999/json/''
      then Inr \<lparr>StatusCode = 200, Header = Map.empty, Body = ''{"erro": true}''\<rparr>
      else if out_URL q = ''https://viacep.com.br/ws/00000000/json/''
      then Inr \<lparr>StatusCode = 400, Header = Map.empty, Body = ''{}''\<rparr>
      else if out_URL q = ''https://viacep.com.br/ws/11111111/json/''
      then Inr \<lparr>StatusCode = 200, Header = Map.empty, Body = ''<html>''\<rparr>
      else if out_URL q = ''https://api.weatherapi.com/v1/current.json?key=test-key&q=Porto+Alegre&aqi=no''
      then Inr \<lparr>StatusCode = 503, Header = Map.empty, Body = []\<rparr>
      else if out_URL q = ''http://service-b:8081/weather/99999999''
      then Inr \<lparr>StatusCode = 404,
                Header = [''Content-Type'' \<mapsto> [''text/plain; charset=utf-8''],
                          ''X-Content-Type-Options'' \<mapsto> [''nosniff'']],
                Body = ''can not find zipcode\<newline>''\<rparr>
      else Inl ''dial tcp: connection refused'')\<close>

text \<open>
  A second network for a second run: the same Service B reached at another address, and
  the same weather service asked with another key.
\<close>

definition test_net_elsewhere :: transport where
  "test_net_elsewhere q =
     (if take (length ''http://localhost:9000'') (out_URL q) = ''http://localhost:9000''
      then test_net (q\<lparr>out_URL := ''http://service-b:8081''
                                  @ drop (length ''http://localhost:9000'') (out_URL q)\<rparr>)
      else if take (length ''https://api.weatherapi.com/v1/current.json?key=other-key'') (out_URL q)
                = ''https://api.weatherapi.com/v1/current.json?key=other-key''
      then test_net (q\<lparr>out_URL := ''https://api.weatherapi.com/v1/current.json?key=test-key''
                        @ drop (length ''https://api.weatherapi.com/v1/current.json?key=other-key'')
                            (out_URL q)\<rparr>)
      else test_net q)"

text \<open>
  The requests of the tests, as \<^verbatim>\<open>httptest.NewRequest\<close> builds them: a POST to Service A
  with a body, and a GET with a path.
\<close>

definition httptest_POST :: "string \<Rightarrow> Request" where
  "httptest_POST body = \<lparr>Method = ''POST'', URL_Path = ''/'', Body_ReadAll = Inr body\<rparr>"

definition httptest_GET :: "string \<Rightarrow> Request" where
  "httptest_GET path = \<lparr>Method = ''GET'', URL_Path = path, Body_ReadAll = Inr []\<rparr>"

section \<open>Properties of the validator\<close>

lemma of_char_digit_cases:
  fixes c :: char
  assumes "48 \<le> (of_char c :: nat)" and "(of_char c :: nat) \<le> 57"
  shows "c \<in> set ''0123456789''"
proof -
  have "(of_char c :: nat) \<in> of_char ` set ''0123456789''"
    using assms by simp arith
  then obtain d where "d \<in> set ''0123456789''" and "(of_char c :: nat) = of_char d"
    by blast
  then show ?thesis by simp
qed

lemma is_perl_digit_iff: "is_perl_digit c \<longleftrightarrow> c \<in> set ''0123456789''"
proof
  assume "is_perl_digit c"
  then show "c \<in> set ''0123456789''"
    unfolding is_perl_digit_def by (intro of_char_digit_cases) simp_all
next
  assume "c \<in> set ''0123456789''"
  then show "is_perl_digit c"
    by (auto simp: is_perl_digit_def)
qed

lemma iterate_Nil: "iterate n f [] = []"
  by (induction n) simp_all

lemma run_repeat_digit:
  "run (Repeat PerlDigit n) (i, rest) =
     (if n \<le> length rest \<and> list_all is_perl_digit (take n rest)
      then [(i + n, drop n rest)] else [])"
proof (induction n arbitrary: i rest)
  case 0
  then show ?case by simp
next
  case (Suc n)
  show ?case
  proof (cases rest)
    case Nil
    then show ?thesis by (simp add: iterate_Nil)
  next
    case (Cons c cs)
    then show ?thesis
      using Suc.IH [of "Suc i" cs]
      by (simp add: iterate_Nil)
  qed
qed

lemma run_cep_pattern:
  "run cep_pattern (k, rest) \<noteq> [] \<longleftrightarrow> k = 0 \<and> length rest = 8 \<and> list_all is_perl_digit rest"
  unfolding cep_pattern_def
  by (auto simp: run_repeat_digit simp del: run.simps(5))

lemma isValidCep_digits: "isValidCep s \<longleftrightarrow> length s = 8 \<and> list_all is_perl_digit s"
  unfolding isValidCep_def MatchString_def list_ex_iff
  by (auto simp: run_cep_pattern simp del: upt_Suc)

text \<open>
  Claim C1. For every string \<open>s\<close>, \<open>isValidCep s\<close> is true if and only if \<open>s\<close> has
  length exactly 8 and every character of \<open>s\<close> is one of the decimal digits
  \<open>0\<close> to \<open>9\<close>.
\<close>

theorem isValidCep_iff:
  "isValidCep s \<longleftrightarrow> length s = 8 \<and> (\<forall>c \<in> set s. c \<in> set ''0123456789'')"
  by (simp add: isValidCep_digits list_all_iff is_perl_digit_iff)

text \<open>The five cases of the repository's table test, obtained from the characterisation.\<close>

theorem isValidCep_iff_witness:
  "isValidCep ''12345678'' \<and> \<not> isValidCep ''12345'' \<and> \<not> isValidCep ''123456789''
   \<and> \<not> isValidCep ''1234567a'' \<and> \<not> isValidCep ''''"
  using isValidCep_iff [of "''12345678''"] isValidCep_iff [of "''12345''"]
    isValidCep_iff [of "''123456789''"] isValidCep_iff [of "''1234567a''"]
    isValidCep_iff [of "''''"]
  by simp

section \<open>Evaluating concrete runs\<close>

text \<open>The equations that unfold a run of the test doubles, and those that decide a CEP.\<close>

lemmas test_eval = test_lib_def test_net_def httptest_GET_def httptest_POST_def viacep_url_def
  weather_url_def targetURL_def query_escape_def NewRequestWithContext_def

lemmas cep_eval = isValidCep_digits list_all_iff is_perl_digit_iff

section \<open>What a fresh writer records\<close>

lemma client_calls_append: "client_calls (xs @ ys) = client_calls xs @ client_calls ys"
  by (induction xs rule: client_calls.induct) simp_all

lemma http_Error_new_writer:
  "http_Error new_writer msg code =
     \<lparr>Headers = [''Content-Type'' \<mapsto> [''text/plain; charset=utf-8''],
                 ''X-Content-Type-Options'' \<mapsto> [''nosniff'']],
      Status = Some code, Written = msg @ ''\<newline>''\<rparr>"
  by (simp add: http_Error_def new_writer_def Header_Del_def Header_Set_def WriteHeader_def
      Fprintln_def Write_def)

lemma Write_WriteHeader_new_writer:
  "Write (WriteHeader new_writer code) bs =
     \<lparr>Headers = Map.empty, Status = Some code, Written = bs\<rparr>"
  by (simp add: new_writer_def WriteHeader_def Write_def)

lemma relay_new_writer:
  "io_Copy (WriteHeader (Header_Set new_writer k v) code) bs =
     \<lparr>Headers = [k \<mapsto> [v]], Status = Some code, Written = bs\<rparr>"
  by (simp add: new_writer_def WriteHeader_def Write_def Header_Set_def io_Copy_def)

section \<open>The log is only ever extended\<close>

text \<open>
  Every function appends its events to the log it is given and never reads the log: its
  result on any log is its result on the empty log.
\<close>

lemma SearchCep_log:
  "SearchCep L net cep t = (fst (SearchCep L net cep []), t @ snd (SearchCep L net cep []))"
  by (simp add: SearchCep_def Let_def split: sum.splits)

lemma GetWeather_log:
  "GetWeather L key net city t
     = (fst (GetWeather L key net city []), t @ snd (GetWeather L key net city []))"
  by (simp add: GetWeather_def Let_def split: sum.splits)

lemma forwardRequestToServiceB_log:
  "forwardRequestToServiceB L env net w cep t
     = (fst (forwardRequestToServiceB L env net w cep []),
        t @ snd (forwardRequestToServiceB L env net w cep []))"
  by (simp add: forwardRequestToServiceB_def Let_def split: sum.splits)

lemma handleCepRequest_log:
  "handleCepRequest L env net w r t
     = (fst (handleCepRequest L env net w r []), t @ snd (handleCepRequest L env net w r []))"
proof -
  have fwd: "forwardRequestToServiceB L env net w cep t'
      = (fst (forwardRequestToServiceB L env net w cep []),
         t' @ snd (forwardRequestToServiceB L env net w cep []))" for cep t'
    by (rule forwardRequestToServiceB_log)
  show ?thesis
    unfolding handleCepRequest_def
    by (subst (1 2 3) fwd) (simp add: Let_def split: sum.splits)
qed

lemma weatherHandler_log:
  "weatherHandler L key net w r t
     = (fst (weatherHandler L key net w r []), t @ snd (weatherHandler L key net w r []))"
proof -
  obtain res1 evs1 where s0: "SearchCep L net (drop (length ''/weather/'') (URL_Path r)) [] = (res1, evs1)"
    by (cases "SearchCep L net (drop (length ''/weather/'') (URL_Path r)) []")
  have s: "SearchCep L net (drop (length ''/weather/'') (URL_Path r)) t' = (res1, t' @ evs1)" for t'
    using SearchCep_log [of L net _ t'] s0 by simp
  show ?thesis
  proof (cases res1)
    case (Inl e)
    then show ?thesis
      unfolding weatherHandler_def Let_def s by simp
  next
    case (Inr loc)
    obtain res2 evs2 where g0: "GetWeather L key net (Localidade loc) [] = (res2, evs2)"
      by (cases "GetWeather L key net (Localidade loc) []")
    have g: "GetWeather L key net (Localidade loc) t' = (res2, t' @ evs2)" for t'
      using GetWeather_log [of L key net _ t'] g0 by simp
    show ?thesis
      unfolding weatherHandler_def Let_def s Inr
      by (cases res2) (simp_all add: g)
  qed
qed

section \<open>Service A and the validation step\<close>

text \<open>
  Claim C5, as the code has it. A request whose CEP fails validation is answered with
  status 422, and no outgoing call is made for it: the log gains no \<open>ClientDo\<close> event.
  In Service A (a POST whose body was read and decoded) the body is literally
  \<^verbatim>\<open>invalid zipcode\<close> and the handler sets no header. In Service B (a path of at least
  nine bytes whose remainder fails validation) the response is the one \<^verbatim>\<open>http.Error\<close>
  writes: plain text, and the body \<^verbatim>\<open>invalid zipcode\<close> followed by a newline.
\<close>

theorem invalid_zipcode_response:
  "(Method r = ''POST'' \<and> Body_ReadAll r = Inr body \<and> json_Unmarshal_CepInput L body = Inr input
      \<and> \<not> isValidCep (Cep input) \<longrightarrow>
      served (handleCepRequest L env net new_writer r t)
        = Some \<lparr>Headers = Map.empty, Status = Some 422, Written = ''invalid zipcode''\<rparr>
      \<and> client_calls (snd (handleCepRequest L env net new_writer r t)) = client_calls t)
   \<and> (length ''/weather/'' \<le> length (URL_Path r')
       \<and> \<not> isValidCep (drop (length ''/weather/'') (URL_Path r')) \<longrightarrow>
      served (weatherHandler L key net' new_writer r' t')
        = Some \<lparr>Headers = [''Content-Type'' \<mapsto> [''text/plain; charset=utf-8''],
                            ''X-Content-Type-Options'' \<mapsto> [''nosniff'']],
                 Status = Some 422, Written = ''invalid zipcode\<newline>''\<rparr>
      \<and> client_calls (snd (weatherHandler L key net' new_writer r' t')) = client_calls t')"
  by (simp add: handleCepRequest_def weatherHandler_def served_def http_Error_new_writer
      client_calls_append Write_WriteHeader_new_writer)

text \<open>The two invalid-code cases of the repository's tests, \<^verbatim>\<open>{"cep": "123"}\<close> and \<^verbatim>\<open>/weather/123\<close>.\<close>

theorem invalid_zipcode_response_witness:
  \<open>served (handleCepRequest test_lib Map.empty test_net new_writer (httptest_POST ''{"cep": "123"}'') [])
     = Some \<lparr>Headers = Map.empty, Status = Some 422, Written = ''invalid zipcode''\<rparr>
   \<and> client_calls (snd (handleCepRequest test_lib Map.empty test_net new_writer
                          (httptest_POST ''{"cep": "123"}'') [])) = []
   \<and> served (weatherHandler test_lib ''test-key'' test_net new_writer (httptest_GET ''/weather/123'') [])
     = Some \<lparr>Headers = [''Content-Type'' \<mapsto> [''text/plain; charset=utf-8''],
                         ''X-Content-Type-Options'' \<mapsto> [''nosniff'']],
              Status = Some 422, Written = ''invalid zipcode\<newline>''\<rparr>
   \<and> client_calls (snd (weatherHandler test_lib ''test-key'' test_net new_writer
                          (httptest_GET ''/weather/123'') [])) = []\<close>
  using invalid_zipcode_response [of \<open>httptest_POST ''{"cep": "123"}''\<close> \<open>''{"cep": "123"}''\<close> test_lib
      \<open>\<lparr>Cep = ''123''\<rparr>\<close> Map.empty test_net "[]" \<open>httptest_GET ''/weather/123''\<close> \<open>''test-key''\<close>
      test_net "[]"]
  by (simp add: httptest_POST_def httptest_GET_def test_lib_def cep_eval)

text \<open>
  Claim C5 as written gives both services the body \<^verbatim>\<open>invalid zipcode\<close>. On the path
  \<^verbatim>\<open>/weather/123\<close> the code fails validation and the body of Service B is not that text:
  it carries the newline of \<^verbatim>\<open>http.Error\<close>, as the repository's test of Service B expects.
\<close>

theorem invalid_zipcode_body_counterexample:
  \<open>\<not> isValidCep (drop (length ''/weather/'') (URL_Path (httptest_GET ''/weather/123'')))
   \<and> map_option sent_status
        (served (weatherHandler test_lib ''test-key'' test_net new_writer (httptest_GET ''/weather/123'') []))
      = Some 422
   \<and> map_option Written
        (served (weatherHandler test_lib ''test-key'' test_net new_writer (httptest_GET ''/weather/123'') []))
      \<noteq> Some ''invalid zipcode''\<close>
  by (simp add: weatherHandler_def served_def http_Error_new_writer httptest_GET_def cep_eval
      sent_status_def)

text \<open>
  Claim C7. For every request to Service A whose method is not \<^verbatim>\<open>POST\<close> the handler
  responds with status 405 and does nothing with the body. The log comes back as it
  was given, so the body is never read (no \<open>ReadAll\<close> event, no span, no call); and the
  outcome is the same whatever reading the body would have given and whatever the
  decoder, the environment and the network are, so nothing is parsed or validated.
\<close>

theorem method_not_allowed:
  "Method r \<noteq> ''POST'' \<Longrightarrow>
     handleCepRequest L env net new_writer r t
       = (Inr \<lparr>Headers = [''Content-Type'' \<mapsto> [''text/plain; charset=utf-8''],
                            ''X-Content-Type-Options'' \<mapsto> [''nosniff'']],
                Status = Some 405, Written = ''Method not allowed\<newline>''\<rparr>, t)
     \<and> handleCepRequest L' env' net' new_writer (r\<lparr>Body_ReadAll := b\<rparr>) t
       = handleCepRequest L env net new_writer r t"
  by (simp add: handleCepRequest_def http_Error_new_writer)

text \<open>The wrong-method case of the repository's test: a GET to \<^verbatim>\<open>/\<close>.\<close>

theorem method_not_allowed_witness:
  "handleCepRequest test_lib Map.empty test_net new_writer (httptest_GET ''/'') []
     = (Inr \<lparr>Headers = [''Content-Type'' \<mapsto> [''text/plain; charset=utf-8''],
                          ''X-Content-Type-Options'' \<mapsto> [''nosniff'']],
              Status = Some 405, Written = ''Method not allowed\<newline>''\<rparr>, [])
   \<and> handleCepRequest test_lib Map.empty test_net new_writer
        ((httptest_GET ''/'')\<lparr>Body_ReadAll := Inl ''unexpected EOF''\<rparr>) []
     = handleCepRequest test_lib Map.empty test_net new_writer (httptest_GET ''/'') []"
  using method_not_allowed [of "httptest_GET ''/''" test_lib Map.empty test_net "[]" test_lib Map.empty
      test_net "Inl ''unexpected EOF''"]
  by (simp add: httptest_GET_def)

text \<open>
  Claim C6. When the request to Service B could be built and a response came back,
  \<open>forwardRequestToServiceB\<close> gives a fresh writer exactly the status code of the
  response, its \<^verbatim>\<open>Content-Type\<close> value as the only header, and its body byte for byte,
  whatever the body is and whatever status code of three digits the response has; and
  so does \<open>handleCepRequest\<close> on a POST whose body decodes to a valid CEP. An HTTP status
  code has three digits, and Service B sends no other (\<open>weatherHandler_status\<close> below).
\<close>

theorem relay_verbatim:
  assumes "url_Parse_fails L (targetURL env cep) = None"
    and "net \<lparr>out_Method = ''GET'', out_URL = targetURL env cep\<rparr> = Inr resp"
    and "100 \<le> StatusCode resp" and "StatusCode resp \<le> 999"
  shows "served (forwardRequestToServiceB L env net new_writer cep t)
           = Some \<lparr>Headers = [''Content-Type'' \<mapsto> [Header_Get (Header resp) ''Content-Type'']],
                    Status = Some (StatusCode resp), Written = Body resp\<rparr>
         \<and> (Method r = ''POST'' \<and> Body_ReadAll r = Inr body
              \<and> json_Unmarshal_CepInput L body = Inr \<lparr>Cep = cep\<rparr> \<and> isValidCep cep \<longrightarrow>
            served (handleCepRequest L env net new_writer r t)
              = Some \<lparr>Headers = [''Content-Type'' \<mapsto> [Header_Get (Header resp) ''Content-Type'']],
                       Status = Some (StatusCode resp), Written = Body resp\<rparr>)"
proof -
  have fwd: "fst (forwardRequestToServiceB L env net new_writer cep t')
           = Inr \<lparr>Headers = [''Content-Type'' \<mapsto> [Header_Get (Header resp) ''Content-Type'']],
                   Status = Some (StatusCode resp), Written = Body resp\<rparr>" for t'
    using assms
    by (simp add: forwardRequestToServiceB_def NewRequestWithContext_def relay_new_writer
        checkWriteHeaderCode_def Let_def)
  have "fst (handleCepRequest L env net new_writer r t)
      = fst (forwardRequestToServiceB L env net new_writer cep
               (t @ [SpanStart ''handleCepRequest'', ReadAll]))"
    if "Method r = ''POST''" and "Body_ReadAll r = Inr body"
      and "json_Unmarshal_CepInput L body = Inr \<lparr>Cep = cep\<rparr>" and "isValidCep cep"
    using that by (simp add: handleCepRequest_def split: prod.splits)
  then show ?thesis
    by (simp add: fwd served_def)
qed

text \<open>
  In particular the response 404 with the body \<^verbatim>\<open>can not find zipcode\<close> and its newline,
  as Service B sends it, reaches the client of Service A with the same status and body.
\<close>

theorem relay_verbatim_witness:
  \<open>served (forwardRequestToServiceB test_lib Map.empty test_net new_writer ''99999999'' [])
     = Some \<lparr>Headers = [''Content-Type'' \<mapsto> [''text/plain; charset=utf-8'']],
              Status = Some 404, Written = ''can not find zipcode\<newline>''\<rparr>
   \<and> served (handleCepRequest test_lib Map.empty test_net new_writer
               (httptest_POST ''{"cep": "99999999"}'') [])
     = Some \<lparr>Headers = [''Content-Type'' \<mapsto> [''text/plain; charset=utf-8'']],
              Status = Some 404, Written = ''can not find zipcode\<newline>''\<rparr>\<close>
proof -
  have u: "url_Parse_fails test_lib (targetURL Map.empty ''99999999'') = None"
    by (simp add: test_lib_def targetURL_def)
  have n: "test_net \<lparr>out_Method = ''GET'', out_URL = targetURL Map.empty ''99999999''\<rparr>
      = Inr \<lparr>StatusCode = 404,
             Header = [''Content-Type'' \<mapsto> [''text/plain; charset=utf-8''],
                       ''X-Content-Type-Options'' \<mapsto> [''nosniff'']],
             Body = ''can not find zipcode\<newline>''\<rparr>"
    by (simp add: test_net_def targetURL_def)
  show ?thesis
    using relay_verbatim [where L = test_lib and env = Map.empty and cep = "''99999999''"
        and net = test_net and t = "[]" and r = \<open>httptest_POST ''{"cep": "99999999"}''\<close>
        and body = \<open>''{"cep": "99999999"}''\<close>, OF u n]
    by (simp add: httptest_POST_def test_lib_def cep_eval Header_Get_def)
qed

section \<open>Service B: the two resolvers and the orchestrator\<close>

lemma Error_sentinel:
  "e \<noteq> LibError s \<Longrightarrow> Error e = s \<longleftrightarrow> e = Errorf s"
  by (cases e) auto

lemma weatherHandler_SearchCep_fails:
  assumes "length ''/weather/'' \<le> length (URL_Path r)"
    and "isValidCep (drop (length ''/weather/'') (URL_Path r))"
    and "fst (SearchCep L net (drop (length ''/weather/'') (URL_Path r)) []) = Inl e"
  shows "served (weatherHandler L key net w r t)
           = Some (http_Error w (Error e) (if Error e = ''can not find zipcode'' then 404 else 500))"
proof -
  have "fst (SearchCep L net (drop (length ''/weather/'') (URL_Path r)) t') = Inl e" for t'
    using assms(3) by (subst SearchCep_log) simp
  then have s: "SearchCep L net (drop (length ''/weather/'') (URL_Path r)) t'
      = (Inl e, snd (SearchCep L net (drop (length ''/weather/'') (URL_Path r)) t'))" for t'
    by (metis prod.collapse)
  show ?thesis
    using assms(1,2) unfolding weatherHandler_def Let_def served_def
    by (subst s) simp
qed

lemma weatherHandler_unfold:
  assumes "length ''/weather/'' \<le> length (URL_Path r)"
    and "isValidCep (drop (length ''/weather/'') (URL_Path r))"
    and s0: "SearchCep L net (drop (length ''/weather/'') (URL_Path r)) [] = (Inr loc, evs1)"
    and g0: "GetWeather L key net (Localidade loc) [] = (res2, evs2)"
  shows "weatherHandler L key net w r t
           = (case res2 of
                Inl err \<Rightarrow>
                  (Inr (http_Error w (Error err) 500),
                   t @ [SpanStart ''weatherHandler-orchestration'',
                        SetAttributes ''cep.input''
                          (StringValue (drop (length ''/weather/'') (URL_Path r)))]
                     @ evs1 @ [SetAttributes ''city.name'' (StringValue (Localidade loc))]
                     @ evs2 @ [SpanEnd ''weatherHandler-orchestration''])
              | Inr clima \<Rightarrow>
                  (Inr (json_Encoder_Encode L
                          (WriteHeader (Header_Set w ''Content-Type'' ''application/json'') 200)
                          \<lparr>City = Localidade loc, TempC = Current_TempC clima,
                           TempF = f64_mul_add L (Current_TempC clima) float64_1_8 float64_32,
                           TempK = f64_add L (Current_TempC clima) float64_273\<rparr>),
                   t @ [SpanStart ''weatherHandler-orchestration'',
                        SetAttributes ''cep.input''
                          (StringValue (drop (length ''/weather/'') (URL_Path r)))]
                     @ evs1 @ [SetAttributes ''city.name'' (StringValue (Localidade loc))]
                     @ evs2 @ [SetAttributes ''temperature.celsius''
                                 (Float64Value (Current_TempC clima)),
                               SpanEnd ''weatherHandler-orchestration'']))"
proof -
  have s: "SearchCep L net (drop (length ''/weather/'') (URL_Path r)) t' = (Inr loc, t' @ evs1)" for t'
    using SearchCep_log [of L net _ t'] s0 by simp
  have g: "GetWeather L key net (Localidade loc) t' = (res2, t' @ evs2)" for t'
    using GetWeather_log [of L key net _ t'] g0 by simp
  show ?thesis
    using assms(1,2) unfolding weatherHandler_def Let_def s
    by (cases res2) (simp_all add: g)
qed

text \<open>Service B answers with one of four status codes, each of three digits.\<close>

lemma weatherHandler_status:
  assumes "served (weatherHandler L key net new_writer r t) = Some w"
  shows "Status w \<in> {Some 200, Some 404, Some 422, Some 500}"
    and "checkWriteHeaderCode (sent_status w)"
proof -
  have w200: "Status (json_Encoder_Encode L
      (WriteHeader (Header_Set new_writer ''Content-Type'' ''application/json'') 200) v) = Some 200" for v
    by (simp add: json_Encoder_Encode_def new_writer_def Header_Set_def WriteHeader_def Write_def
        split: sum.splits)
  show "Status w \<in> {Some 200, Some 404, Some 422, Some 500}"
    using assms
    by (auto simp: weatherHandler_def served_def Let_def http_Error_new_writer w200
        split: if_splits prod.splits sum.splits)
  then show "checkWriteHeaderCode (sent_status w)"
    by (auto simp: checkWriteHeaderCode_def sent_status_def)
qed

lemma weatherHandler_GetWeather_fails:
  assumes "length ''/weather/'' \<le> length (URL_Path r)"
    and "isValidCep (drop (length ''/weather/'') (URL_Path r))"
    and "fst (SearchCep L net (drop (length ''/weather/'') (URL_Path r)) []) = Inr loc"
    and "fst (GetWeather L key net (Localidade loc) []) = Inl e"
  shows "served (weatherHandler L key net w r t) = Some (http_Error w (Error e) 500)"
proof -
  obtain evs1 where s0: "SearchCep L net (drop (length ''/weather/'') (URL_Path r)) [] = (Inr loc, evs1)"
    using assms(3) by (metis prod.collapse)
  obtain evs2 where g0: "GetWeather L key net (Localidade loc) [] = (Inl e, evs2)"
    using assms(4) by (metis prod.collapse)
  show ?thesis
    by (simp add: weatherHandler_unfold [OF assms(1,2) s0 g0] served_def)
qed

lemma GetWeather_calls:
  "client_calls (snd (GetWeather L key net city t))
     = client_calls t @
       (if url_Parse_fails L (weather_url L key city) = None
        then [(5, \<lparr>out_Method = ''GET'', out_URL = weather_url L key city\<rparr>)] else [])"
  by (simp add: GetWeather_def NewRequestWithContext_def Let_def client_calls_append
      split: sum.splits option.splits)

lemma GetWeather_fails_iff:
  "(\<exists>e. fst (GetWeather L key net city t) = Inl e) \<longleftrightarrow>
     url_Parse_fails L (weather_url L key city) \<noteq> None
     \<or> (\<exists>m. net \<lparr>out_Method = ''GET'', out_URL = weather_url L key city\<rparr> = Inl m)
     \<or> (\<exists>resp. net \<lparr>out_Method = ''GET'', out_URL = weather_url L key city\<rparr> = Inr resp
            \<and> StatusCode resp \<noteq> 200)
     \<or> (\<exists>resp m. net \<lparr>out_Method = ''GET'', out_URL = weather_url L key city\<rparr> = Inr resp
            \<and> json_Decode_Clima L (Body resp) = Inl m)"
  by (auto simp: GetWeather_def NewRequestWithContext_def Let_def
      split: sum.splits option.splits)

lemma GetWeather_status:
  "url_Parse_fails L (weather_url L key city) = None \<Longrightarrow>
   net \<lparr>out_Method = ''GET'', out_URL = weather_url L key city\<rparr> = Inr resp \<Longrightarrow>
   StatusCode resp \<noteq> 200 \<Longrightarrow>
   fst (GetWeather L key net city t)
     = Inl (Errorf (''weather API returned status '' @ format_d (StatusCode resp)))"
  by (simp add: GetWeather_def NewRequestWithContext_def Let_def)

lemma SearchCep_not_found_iff:
  "fst (SearchCep L net cep t) = Inl (Errorf ''can not find zipcode'') \<longleftrightarrow>
     url_Parse_fails L (viacep_url cep) = None
     \<and> (\<exists>resp loc. net \<lparr>out_Method = ''GET'', out_URL = viacep_url cep\<rparr> = Inr resp
           \<and> json_Decode_Local L (Body resp) = Inr loc \<and> Erro loc)"
  by (auto simp: SearchCep_def NewRequestWithContext_def Let_def
      split: sum.splits option.splits)

lemma SearchCep_decode_fails:
  "url_Parse_fails L (viacep_url cep) = None \<Longrightarrow>
   net \<lparr>out_Method = ''GET'', out_URL = viacep_url cep\<rparr> = Inr resp \<Longrightarrow>
   json_Decode_Local L (Body resp) = Inl m \<Longrightarrow>
   fst (SearchCep L net cep t) = Inl (LibError m)"
  by (simp add: SearchCep_def NewRequestWithContext_def Let_def)

lemma SearchCep_status_blind:
  "SearchCep L (\<lambda>q. map_sum id (\<lambda>resp. resp\<lparr>StatusCode := s\<rparr>) (net q)) cep t = SearchCep L net cep t"
  by (simp add: SearchCep_def NewRequestWithContext_def Let_def split: sum.splits option.splits)

lemma SearchCep_succeeds:
  "url_Parse_fails L (viacep_url cep) = None \<Longrightarrow>
   net \<lparr>out_Method = ''GET'', out_URL = viacep_url cep\<rparr> = Inr resp \<Longrightarrow>
   json_Decode_Local L (Body resp) = Inr loc \<Longrightarrow> \<not> Erro loc \<Longrightarrow>
   fst (SearchCep L net cep t) = Inr loc"
  by (simp add: SearchCep_def NewRequestWithContext_def Let_def)

text \<open>
  Claim C3, as the code has it. \<open>SearchCep\<close> returns the error made by
  \<^verbatim>\<open>fmt.Errorf("can not find zipcode")\<close> if and only if the request could be built, the
  call gave a response, the body of the response decoded, and the decoded flag \<open>Erro\<close>
  is true. A body that fails to decode gives the decoder's own error, which is a library
  error and not the not-found error. The orchestrator answers a failure \<open>e\<close> of
  \<open>SearchCep\<close> through \<^verbatim>\<open>http.Error\<close>: status 404 when \<open>e\<close> is the not-found error and status
  500 for every other failure, and in both cases the body is the message of \<open>e\<close>
  followed by a newline. The handler tells the not-found error by its message, so this
  last part is about failures other than a library error with that very message.
\<close>

theorem not_found_mapping:
  "(fst (SearchCep L net cep t) = Inl (Errorf ''can not find zipcode'') \<longleftrightarrow>
      url_Parse_fails L (viacep_url cep) = None
      \<and> (\<exists>resp loc. net \<lparr>out_Method = ''GET'', out_URL = viacep_url cep\<rparr> = Inr resp
            \<and> json_Decode_Local L (Body resp) = Inr loc \<and> Erro loc))
   \<and> (url_Parse_fails L (viacep_url cep) = None
       \<and> net \<lparr>out_Method = ''GET'', out_URL = viacep_url cep\<rparr> = Inr resp'
       \<and> json_Decode_Local L (Body resp') = Inl m \<longrightarrow>
      fst (SearchCep L net cep t) = Inl (LibError m))
   \<and> (length ''/weather/'' \<le> length (URL_Path r)
       \<and> isValidCep (drop (length ''/weather/'') (URL_Path r))
       \<and> fst (SearchCep L net (drop (length ''/weather/'') (URL_Path r)) []) = Inl e
       \<and> e \<noteq> LibError ''can not find zipcode'' \<longrightarrow>
      served (weatherHandler L key net new_writer r t')
        = Some \<lparr>Headers = [''Content-Type'' \<mapsto> [''text/plain; charset=utf-8''],
                            ''X-Content-Type-Options'' \<mapsto> [''nosniff'']],
                 Status = Some (if e = Errorf ''can not find zipcode'' then 404 else 500),
                 Written = Error e @ ''\<newline>''\<rparr>)"
proof (intro conjI impI)
  show "fst (SearchCep L net cep t) = Inl (Errorf ''can not find zipcode'') \<longleftrightarrow>
      url_Parse_fails L (viacep_url cep) = None
      \<and> (\<exists>resp loc. net \<lparr>out_Method = ''GET'', out_URL = viacep_url cep\<rparr> = Inr resp
            \<and> json_Decode_Local L (Body resp) = Inr loc \<and> Erro loc)"
    by (rule SearchCep_not_found_iff)
next
  assume "url_Parse_fails L (viacep_url cep) = None
       \<and> net \<lparr>out_Method = ''GET'', out_URL = viacep_url cep\<rparr> = Inr resp'
       \<and> json_Decode_Local L (Body resp') = Inl m"
  then show "fst (SearchCep L net cep t) = Inl (LibError m)"
    by (simp add: SearchCep_decode_fails)
next
  assume h: "length ''/weather/'' \<le> length (URL_Path r)
       \<and> isValidCep (drop (length ''/weather/'') (URL_Path r))
       \<and> fst (SearchCep L net (drop (length ''/weather/'') (URL_Path r)) []) = Inl e
       \<and> e \<noteq> LibError ''can not find zipcode''"
  then have "Error e = ''can not find zipcode'' \<longleftrightarrow> e = Errorf ''can not find zipcode''"
    by (simp add: Error_sentinel)
  moreover have "served (weatherHandler L key net new_writer r t')
      = Some (http_Error new_writer (Error e)
                (if Error e = ''can not find zipcode'' then 404 else 500))"
    using h by (intro weatherHandler_SearchCep_fails) simp_all
  ultimately show "served (weatherHandler L key net new_writer r t')
        = Some \<lparr>Headers = [''Content-Type'' \<mapsto> [''text/plain; charset=utf-8''],
                            ''X-Content-Type-Options'' \<mapsto> [''nosniff'']],
                 Status = Some (if e = Errorf ''can not find zipcode'' then 404 else 500),
                 Written = Error e @ ''\<newline>''\<rparr>"
    by (simp add: http_Error_new_writer)
qed

text \<open>Two runs of the double: a code that is not found, and a lookup that answers with a page.\<close>

lemma run_not_found:
  "fst (SearchCep test_lib test_net ''99999999'' []) = Inl (Errorf ''can not find zipcode'')"
  by (simp add: SearchCep_def test_eval)

lemma run_malformed:
  "fst (SearchCep test_lib test_net ''11111111'' []) = Inl (LibError ''unexpected EOF'')"
  by (simp add: SearchCep_def test_eval)

theorem not_found_mapping_witness:
  "fst (SearchCep test_lib test_net ''11111111'' []) = Inl (LibError ''unexpected EOF'')
   \<and> served (weatherHandler test_lib ''test-key'' test_net new_writer (httptest_GET ''/weather/99999999'') [])
      = Some \<lparr>Headers = [''Content-Type'' \<mapsto> [''text/plain; charset=utf-8''],
                          ''X-Content-Type-Options'' \<mapsto> [''nosniff'']],
               Status = Some 404, Written = ''can not find zipcode\<newline>''\<rparr>
   \<and> served (weatherHandler test_lib ''test-key'' test_net new_writer (httptest_GET ''/weather/11111111'') [])
      = Some \<lparr>Headers = [''Content-Type'' \<mapsto> [''text/plain; charset=utf-8''],
                          ''X-Content-Type-Options'' \<mapsto> [''nosniff'']],
               Status = Some 500, Written = ''unexpected EOF\<newline>''\<rparr>"
  using not_found_mapping [where L = test_lib and net = test_net and cep = "''11111111''"
      and t = "[]" and m = "''unexpected EOF''" and r = "httptest_GET ''/weather/99999999''"
      and e = "Errorf ''can not find zipcode''" and key = "''test-key''" and t' = "[]"
      and resp' = "\<lparr>StatusCode = 200, Header = Map.empty, Body = ''<html>''\<rparr>"]
    not_found_mapping [where L = test_lib and net = test_net and cep = "''11111111''"
      and t = "[]" and m = "''unexpected EOF''" and r = "httptest_GET ''/weather/11111111''"
      and e = "LibError ''unexpected EOF''" and key = "''test-key''" and t' = "[]"
      and resp' = "\<lparr>StatusCode = 200, Header = Map.empty, Body = ''<html>''\<rparr>"]
    run_not_found run_malformed
  by (simp add: test_eval cep_eval)

text \<open>
  Claim C3 as written makes the body of the 404 response the resolver's message. For
  the code \<^verbatim>\<open>99999999\<close> of the repository's tests \<open>SearchCep\<close> returns the not-found
  error, the status is 404, and the body is not the message: it is the message and a
  newline.
\<close>

theorem not_found_body_counterexample:
  "fst (SearchCep test_lib test_net ''99999999'' []) = Inl (Errorf ''can not find zipcode'')
   \<and> map_option sent_status
        (served (weatherHandler test_lib ''test-key'' test_net new_writer (httptest_GET ''/weather/99999999'') []))
      = Some 404
   \<and> map_option Written
        (served (weatherHandler test_lib ''test-key'' test_net new_writer (httptest_GET ''/weather/99999999'') []))
      \<noteq> Some (Error (Errorf ''can not find zipcode''))"
proof -
  have "served (weatherHandler test_lib ''test-key'' test_net new_writer (httptest_GET ''/weather/99999999'') [])
      = Some (http_Error new_writer (Error (Errorf ''can not find zipcode''))
               (if Error (Errorf ''can not find zipcode'') = ''can not find zipcode'' then 404 else 500))"
    using run_not_found by (intro weatherHandler_SearchCep_fails) (simp_all add: httptest_GET_def cep_eval)
  then show ?thesis
    using run_not_found by (simp add: http_Error_new_writer sent_status_def)
qed

text \<open>
  Claim C8, as the code has it. \<open>GetWeather\<close> calls \<^verbatim>\<open>client.Do\<close> once, with a timeout of 5
  seconds, when its request could be built, and not at all otherwise: there is no
  retry. It returns an error exactly when the request cannot be built or the call
  fails (the transport failures), or the status of the response is not 200, or the body
  does not decode; for a status other than 200 the message is
  \<^verbatim>\<open>weather API returned status\<close> followed by the status in decimal. The orchestrator answers
  every such error with status 500 and, as body, the message followed by a newline.
\<close>

theorem weather_failures:
  "client_calls (snd (GetWeather L key net city t))
     = client_calls t @
       (if url_Parse_fails L (weather_url L key city) = None
        then [(5, \<lparr>out_Method = ''GET'', out_URL = weather_url L key city\<rparr>)] else [])
   \<and> ((\<exists>e. fst (GetWeather L key net city t) = Inl e) \<longleftrightarrow>
        url_Parse_fails L (weather_url L key city) \<noteq> None
        \<or> (\<exists>m. net \<lparr>out_Method = ''GET'', out_URL = weather_url L key city\<rparr> = Inl m)
        \<or> (\<exists>resp. net \<lparr>out_Method = ''GET'', out_URL = weather_url L key city\<rparr> = Inr resp
               \<and> StatusCode resp \<noteq> 200)
        \<or> (\<exists>resp m. net \<lparr>out_Method = ''GET'', out_URL = weather_url L key city\<rparr> = Inr resp
               \<and> json_Decode_Clima L (Body resp) = Inl m))
   \<and> (url_Parse_fails L (weather_url L key city) = None
       \<and> net \<lparr>out_Method = ''GET'', out_URL = weather_url L key city\<rparr> = Inr resp'
       \<and> StatusCode resp' \<noteq> 200 \<longrightarrow>
      fst (GetWeather L key net city t)
        = Inl (Errorf (''weather API returned status '' @ format_d (StatusCode resp'))))
   \<and> (length ''/weather/'' \<le> length (URL_Path r)
       \<and> isValidCep (drop (length ''/weather/'') (URL_Path r))
       \<and> fst (SearchCep L net (drop (length ''/weather/'') (URL_Path r)) []) = Inr loc
       \<and> fst (GetWeather L key net (Localidade loc) []) = Inl e' \<longrightarrow>
      served (weatherHandler L key net new_writer r t')
        = Some \<lparr>Headers = [''Content-Type'' \<mapsto> [''text/plain; charset=utf-8''],
                            ''X-Content-Type-Options'' \<mapsto> [''nosniff'']],
                 Status = Some 500, Written = Error e' @ ''\<newline>''\<rparr>)"
proof (intro conjI impI)
  assume "length ''/weather/'' \<le> length (URL_Path r)
       \<and> isValidCep (drop (length ''/weather/'') (URL_Path r))
       \<and> fst (SearchCep L net (drop (length ''/weather/'') (URL_Path r)) []) = Inr loc
       \<and> fst (GetWeather L key net (Localidade loc) []) = Inl e'"
  then have "served (weatherHandler L key net new_writer r t')
      = Some (http_Error new_writer (Error e') 500)"
    by (intro weatherHandler_GetWeather_fails [where loc = loc]) simp_all
  then show "served (weatherHandler L key net new_writer r t')
        = Some \<lparr>Headers = [''Content-Type'' \<mapsto> [''text/plain; charset=utf-8''],
                            ''X-Content-Type-Options'' \<mapsto> [''nosniff'']],
                 Status = Some 500, Written = Error e' @ ''\<newline>''\<rparr>"
    by (simp add: http_Error_new_writer)
qed (simp_all add: GetWeather_calls GetWeather_fails_iff GetWeather_status)

text \<open>A run of the double in which the weather service answers 503.\<close>

lemma run_porto_alegre:
  "fst (SearchCep test_lib test_net ''90010000'' []) = Inr \<lparr>Localidade = ''Porto Alegre'', Erro = False\<rparr>"
  by (simp add: SearchCep_def test_eval)

lemma run_weather_503:
  "fst (GetWeather test_lib ''test-key'' test_net ''Porto Alegre'' [])
     = Inl (Errorf ''weather API returned status 503'')"
  by (simp add: GetWeather_def test_eval format_d_def digits.simps Let_def)

theorem weather_failures_witness:
  "client_calls (snd (GetWeather test_lib ''test-key'' test_net ''Porto Alegre'' []))
     = [(5, \<lparr>out_Method = ''GET'',
              out_URL = ''https://api.weatherapi.com/v1/current.json?key=test-key&q=Porto+Alegre&aqi=no''\<rparr>)]
   \<and> fst (GetWeather test_lib ''test-key'' test_net ''Porto Alegre'' [])
      = Inl (Errorf ''weather API returned status 503'')
   \<and> served (weatherHandler test_lib ''test-key'' test_net new_writer (httptest_GET ''/weather/90010000'') [])
      = Some \<lparr>Headers = [''Content-Type'' \<mapsto> [''text/plain; charset=utf-8''],
                          ''X-Content-Type-Options'' \<mapsto> [''nosniff'']],
               Status = Some 500, Written = ''weather API returned status 503\<newline>''\<rparr>"
  using weather_failures [where L = test_lib and key = "''test-key''" and net = test_net
      and city = "''Porto Alegre''" and t = "[]"
      and resp' = "\<lparr>StatusCode = 503, Header = Map.empty, Body = []\<rparr>"
      and r = "httptest_GET ''/weather/90010000''"
      and loc = "\<lparr>Localidade = ''Porto Alegre'', Erro = False\<rparr>"
      and e' = "Errorf ''weather API returned status 503''" and t' = "[]"]
    run_porto_alegre run_weather_503
  by (simp add: test_eval cep_eval format_d_def digits.simps)

text \<open>
  Claim C8 as written makes the body of the 500 response the failure message, and gives
  every call exactly one attempt. In the run above the body is the message and a
  newline. With an API key that holds a tab the address does not parse: \<open>GetWeather\<close>
  returns an error without any attempt.
\<close>

theorem weather_failure_body_counterexample:
  "fst (GetWeather test_lib ''test-key'' test_net ''Porto Alegre'' [])
     = Inl (Errorf ''weather API returned status 503'')
   \<and> map_option sent_status
        (served (weatherHandler test_lib ''test-key'' test_net new_writer (httptest_GET ''/weather/90010000'') []))
      = Some 500
   \<and> map_option Written
        (served (weatherHandler test_lib ''test-key'' test_net new_writer (httptest_GET ''/weather/90010000'') []))
      \<noteq> Some (Error (Errorf ''weather API returned status 503''))
   \<and> fst (GetWeather test_lib (''test'' @ [CHR 0x09] @ ''key'') test_net ''Porto Alegre'' [])
      = Inl (LibError ''net/url: invalid control character in URL'')
   \<and> client_calls (snd (GetWeather test_lib (''test'' @ [CHR 0x09] @ ''key'') test_net ''Porto Alegre'' []))
      = []"
proof -
  have "served (weatherHandler test_lib ''test-key'' test_net new_writer (httptest_GET ''/weather/90010000'') [])
      = Some (http_Error new_writer (Error (Errorf ''weather API returned status 503'')) 500)"
    using run_porto_alegre run_weather_503
    by (intro weatherHandler_GetWeather_fails
          [where loc = "\<lparr>Localidade = ''Porto Alegre'', Erro = False\<rparr>"])
       (simp_all add: httptest_GET_def cep_eval)
  moreover have "fst (GetWeather test_lib (''test'' @ [CHR 0x09] @ ''key'') test_net ''Porto Alegre'' [])
      = Inl (LibError ''net/url: invalid control character in URL'')"
    by (simp add: GetWeather_def test_eval Let_def)
  moreover have "client_calls (snd (GetWeather test_lib (''test'' @ [CHR 0x09] @ ''key'') test_net
      ''Porto Alegre'' [])) = []"
    by (simp add: GetWeather_def test_eval Let_def)
  ultimately show ?thesis
    using run_weather_503 by (simp add: http_Error_new_writer sent_status_def)
qed

lemma SearchCep_calls_success:
  "fst (SearchCep L net cep t) = Inr loc \<Longrightarrow>
   client_calls (snd (SearchCep L net cep t))
     = client_calls t @ [(5, \<lparr>out_Method = ''GET'', out_URL = viacep_url cep\<rparr>)]"
  by (auto simp: SearchCep_def NewRequestWithContext_def Let_def client_calls_append
      split: sum.splits option.splits if_splits)

lemma GetWeather_span:
  "SpanStart ''get-weather-from-weather-api (GetWeather)'' \<in> set (snd (GetWeather L key net city t))"
  by (simp add: GetWeather_def Let_def split: sum.splits)

text \<open>
  Claim C10, as the code has it. \<open>SearchCep\<close> never looks at the status code of the
  response: replacing the status of every response by any value \<open>s\<close> changes neither
  its result nor its effects, and a response whose body decodes with the flag \<open>Erro\<close>
  false gives success whatever its status. When the decoded locality is the empty
  string the orchestrator goes on to \<open>GetWeather\<close> with the empty city: the log holds
  the attribute \<^verbatim>\<open>city.name\<close> with the empty string and the span of \<open>GetWeather\<close>. The
  weather service is then queried with the empty city when the request to it can be
  built, and not at all when it cannot: the calls of the run are the lookup and, in the
  first case only, the weather query.
\<close>

theorem SearchCep_ignores_status:
  "SearchCep L (\<lambda>q. map_sum id (\<lambda>resp. resp\<lparr>StatusCode := s\<rparr>) (net q)) cep t = SearchCep L net cep t
   \<and> (url_Parse_fails L (viacep_url cep) = None
       \<and> net \<lparr>out_Method = ''GET'', out_URL = viacep_url cep\<rparr> = Inr resp
       \<and> json_Decode_Local L (Body resp) = Inr loc \<and> \<not> Erro loc \<longrightarrow>
      fst (SearchCep L net cep t) = Inr loc)
   \<and> (length ''/weather/'' \<le> length (URL_Path r)
       \<and> isValidCep (drop (length ''/weather/'') (URL_Path r))
       \<and> fst (SearchCep L net (drop (length ''/weather/'') (URL_Path r)) []) = Inr loc'
       \<and> Localidade loc' = [] \<longrightarrow>
      SetAttributes ''city.name'' (StringValue []) \<in> set (snd (weatherHandler L key net w r t'))
      \<and> SpanStart ''get-weather-from-weather-api (GetWeather)''
          \<in> set (snd (weatherHandler L key net w r t'))
      \<and> client_calls (snd (weatherHandler L key net w r t'))
          = client_calls t'
            @ [(5, \<lparr>out_Method = ''GET'',
                     out_URL = viacep_url (drop (length ''/weather/'') (URL_Path r))\<rparr>)]
            @ (if url_Parse_fails L (weather_url L key []) = None
               then [(5, \<lparr>out_Method = ''GET'', out_URL = weather_url L key []\<rparr>)] else []))"
proof (intro conjI impI)
  assume h: "length ''/weather/'' \<le> length (URL_Path r)
       \<and> isValidCep (drop (length ''/weather/'') (URL_Path r))
       \<and> fst (SearchCep L net (drop (length ''/weather/'') (URL_Path r)) []) = Inr loc'
       \<and> Localidade loc' = []"
  obtain evs1 where s0: "SearchCep L net (drop (length ''/weather/'') (URL_Path r)) [] = (Inr loc', evs1)"
    using h by (metis prod.collapse)
  obtain res2 evs2 where g0: "GetWeather L key net (Localidade loc') [] = (res2, evs2)"
    by (cases "GetWeather L key net (Localidade loc') []")
  have c1: "client_calls evs1
      = [(5, \<lparr>out_Method = ''GET'', out_URL = viacep_url (drop (length ''/weather/'') (URL_Path r))\<rparr>)]"
    using SearchCep_calls_success [of L net "drop (length ''/weather/'') (URL_Path r)" "[]" loc'] s0
    by simp
  have c2: "client_calls evs2
      = (if url_Parse_fails L (weather_url L key []) = None
         then [(5, \<lparr>out_Method = ''GET'', out_URL = weather_url L key []\<rparr>)] else [])"
    using GetWeather_calls [of L key net "Localidade loc'" "[]"] g0 h by simp
  have sp: "SpanStart ''get-weather-from-weather-api (GetWeather)'' \<in> set evs2"
    using GetWeather_span [of L key net "Localidade loc'" "[]"] g0 by simp
  have u: "snd (weatherHandler L key net w r t')
      = t' @ [SpanStart ''weatherHandler-orchestration'',
              SetAttributes ''cep.input'' (StringValue (drop (length ''/weather/'') (URL_Path r)))]
           @ evs1 @ [SetAttributes ''city.name'' (StringValue (Localidade loc'))] @ evs2
           @ (case res2 of
                Inl err \<Rightarrow> [SpanEnd ''weatherHandler-orchestration'']
              | Inr clima \<Rightarrow> [SetAttributes ''temperature.celsius'' (Float64Value (Current_TempC clima)),
                               SpanEnd ''weatherHandler-orchestration''])"
    using h by (cases res2) (simp_all add: weatherHandler_unfold [OF _ _ s0 g0])
  show "SetAttributes ''city.name'' (StringValue []) \<in> set (snd (weatherHandler L key net w r t'))"
    using h by (simp add: u)
  show "SpanStart ''get-weather-from-weather-api (GetWeather)''
          \<in> set (snd (weatherHandler L key net w r t'))"
    using sp by (simp add: u)
  show "client_calls (snd (weatherHandler L key net w r t'))
          = client_calls t'
            @ [(5, \<lparr>out_Method = ''GET'',
                     out_URL = viacep_url (drop (length ''/weather/'') (URL_Path r))\<rparr>)]
            @ (if url_Parse_fails L (weather_url L key []) = None
               then [(5, \<lparr>out_Method = ''GET'', out_URL = weather_url L key []\<rparr>)] else [])"
    unfolding u by (cases res2) (simp_all add: client_calls_append c1 c2)
qed (simp_all add: SearchCep_status_blind SearchCep_succeeds)

text \<open>
  A run of the double: the lookup answers the code \<^verbatim>\<open>00000000\<close> with status 400 and the
  body \<^verbatim>\<open>{}\<close>.
\<close>

lemma run_empty_locality:
  "fst (SearchCep test_lib test_net ''00000000'' []) = Inr \<lparr>Localidade = [], Erro = False\<rparr>"
  by (simp add: SearchCep_def test_eval)

theorem SearchCep_ignores_status_witness:
  "fst (SearchCep test_lib test_net ''00000000'' []) = Inr \<lparr>Localidade = [], Erro = False\<rparr>
   \<and> client_calls (snd (weatherHandler test_lib ''test-key'' test_net new_writer
                          (httptest_GET ''/weather/00000000'') []))
      = [(5, \<lparr>out_Method = ''GET'', out_URL = ''https://viacep.com.br/ws/00000000/json/''\<rparr>),
         (5, \<lparr>out_Method = ''GET'',
               out_URL = ''https://api.weatherapi.com/v1/current.json?key=test-key&q=&aqi=no''\<rparr>)]"
proof -
  have s: "fst (SearchCep test_lib test_net ''00000000'' []) = Inr \<lparr>Localidade = [], Erro = False\<rparr>"
    using SearchCep_ignores_status [where L = test_lib and net = test_net and cep = "''00000000''"
        and t = "[]" and resp = "\<lparr>StatusCode = 400, Header = Map.empty, Body = ''{}''\<rparr>"
        and loc = "\<lparr>Localidade = [], Erro = False\<rparr>"]
    by (simp add: test_eval)
  show ?thesis
    using s SearchCep_ignores_status [where L = test_lib and net = test_net
        and r = "httptest_GET ''/weather/00000000''" and loc' = "\<lparr>Localidade = [], Erro = False\<rparr>"
        and key = "''test-key''" and w = new_writer and t' = "[]"]
    by (simp add: test_eval cep_eval)
qed

text \<open>
  Claim C10 as written has the pipeline query the weather service whenever the locality
  is empty. In the same run with an API key that holds a tab, the lookup succeeds with
  the empty locality, the address of the weather service does not parse, and the only
  call of the run is the lookup.
\<close>

theorem empty_city_no_query_counterexample:
  "fst (SearchCep test_lib test_net ''00000000'' []) = Inr \<lparr>Localidade = [], Erro = False\<rparr>
   \<and> client_calls (snd (weatherHandler test_lib (''test'' @ [CHR 0x09] @ ''key'') test_net new_writer
                          (httptest_GET ''/weather/00000000'') []))
      = [(5, \<lparr>out_Method = ''GET'', out_URL = ''https://viacep.com.br/ws/00000000/json/''\<rparr>)]"
  by (simp add: weatherHandler_def SearchCep_def GetWeather_def test_eval cep_eval Let_def)

section \<open>The successful run\<close>

text \<open>
  When both resolvers succeed the orchestrator answers 200 with the content type
  \<^verbatim>\<open>application/json\<close> and the encoding of the report it assembled: the city, the
  Celsius value as received, \<^verbatim>\<open>tempC*1.8 + 32\<close> and \<^verbatim>\<open>tempC + 273\<close> in the arithmetic of
  \<^verbatim>\<open>float64\<close>.
\<close>

lemma weatherHandler_success:
  assumes "length ''/weather/'' \<le> length (URL_Path r)"
    and "isValidCep (drop (length ''/weather/'') (URL_Path r))"
    and "fst (SearchCep L net (drop (length ''/weather/'') (URL_Path r)) []) = Inr loc"
    and "fst (GetWeather L key net (Localidade loc) []) = Inr clima"
    and "json_Encode L \<lparr>City = Localidade loc, TempC = Current_TempC clima,
           TempF = f64_mul_add L (Current_TempC clima) float64_1_8 float64_32,
           TempK = f64_add L (Current_TempC clima) float64_273\<rparr> = Inr bs"
  shows "served (weatherHandler L key net new_writer r t)
           = Some \<lparr>Headers = [''Content-Type'' \<mapsto> [''application/json'']],
                    Status = Some 200, Written = bs\<rparr>"
proof -
  obtain evs1 where s0: "SearchCep L net (drop (length ''/weather/'') (URL_Path r)) [] = (Inr loc, evs1)"
    using assms(3) by (metis prod.collapse)
  obtain evs2 where g0: "GetWeather L key net (Localidade loc) [] = (Inr clima, evs2)"
    using assms(4) by (metis prod.collapse)
  show ?thesis
    using assms(5)
    by (simp add: weatherHandler_unfold [OF assms(1,2) s0 g0] served_def json_Encoder_Encode_def
        new_writer_def Header_Set_def WriteHeader_def Write_def)
qed

section \<open>Determinism\<close>

text \<open>
  The response of a handler is decided by the request, the writer and the answers of the
  dependencies; the rest of the process reaches it only through those answers.
\<close>

lemma served_Some: "served res = Some w \<Longrightarrow> fst res = Inr w"
  by (simp add: served_def split: sum.splits)

lemma forwardRequestToServiceB_answer:
  "downstream_answer L env1 net1 cep = downstream_answer L env2 net2 cep \<Longrightarrow>
   fst (forwardRequestToServiceB L env1 net1 w cep t1)
     = fst (forwardRequestToServiceB L env2 net2 w cep t2)"
  by (auto simp: downstream_answer_def forwardRequestToServiceB_def Let_def
      split: sum.splits)

lemma handleCepRequest_answer:
  assumes "\<And>cep. downstream_answer L env1 net1 cep = downstream_answer L env2 net2 cep"
  shows "fst (handleCepRequest L env1 net1 w r t1) = fst (handleCepRequest L env2 net2 w r t2)"
proof -
  have "fst (forwardRequestToServiceB L env1 net1 w cep t)
      = fst (forwardRequestToServiceB L env2 net2 w cep t')" for cep t t'
    using assms by (rule forwardRequestToServiceB_answer)
  then show ?thesis
    by (simp add: handleCepRequest_def case_prod_beta Let_def split: sum.splits)
qed

lemma SearchCep_answer:
  "lookup_answer L net1 cep = lookup_answer L net2 cep \<Longrightarrow>
   fst (SearchCep L net1 cep t1) = fst (SearchCep L net2 cep t2)"
  by (auto simp: lookup_answer_def SearchCep_def Let_def split: sum.splits)

lemma GetWeather_answer:
  "weather_answer L key1 net1 city = weather_answer L key2 net2 city \<Longrightarrow>
   fst (GetWeather L key1 net1 city t1) = fst (GetWeather L key2 net2 city t2)"
  by (auto simp: weather_answer_def GetWeather_def Let_def split: sum.splits)

lemma weatherHandler_answer:
  assumes look: "\<And>cep. lookup_answer L net1 cep = lookup_answer L net2 cep"
    and weather: "\<And>city. weather_answer L key1 net1 city = weather_answer L key2 net2 city"
  shows "fst (weatherHandler L key1 net1 w r t1) = fst (weatherHandler L key2 net2 w r t2)"
proof (cases "length ''/weather/'' \<le> length (URL_Path r)
    \<and> isValidCep (drop (length ''/weather/'') (URL_Path r))")
  case False
  then show ?thesis
    by (auto simp: weatherHandler_def Let_def)
next
  case True
  obtain res1 evs1 where s1: "SearchCep L net1 (drop (length ''/weather/'') (URL_Path r)) [] = (res1, evs1)"
    by (cases "SearchCep L net1 (drop (length ''/weather/'') (URL_Path r)) []")
  obtain evs1' where s2: "SearchCep L net2 (drop (length ''/weather/'') (URL_Path r)) [] = (res1, evs1')"
    using SearchCep_answer [OF look, of _ "[]" "[]"] s1 by (metis fst_conv prod.collapse)
  show ?thesis
  proof (cases res1)
    case (Inl e)
    have "served (weatherHandler L key1 net1 w r t1)
        = Some (http_Error w (Error e) (if Error e = ''can not find zipcode'' then 404 else 500))"
      using True s1 Inl by (intro weatherHandler_SearchCep_fails) simp_all
    moreover have "served (weatherHandler L key2 net2 w r t2)
        = Some (http_Error w (Error e) (if Error e = ''can not find zipcode'' then 404 else 500))"
      using True s2 Inl by (intro weatherHandler_SearchCep_fails) simp_all
    ultimately show ?thesis
      by (simp add: served_Some)
  next
    case (Inr loc)
    obtain res2 evs2 where g1: "GetWeather L key1 net1 (Localidade loc) [] = (res2, evs2)"
      by (cases "GetWeather L key1 net1 (Localidade loc) []")
    obtain evs2' where g2: "GetWeather L key2 net2 (Localidade loc) [] = (res2, evs2')"
      using GetWeather_answer [OF weather, of _ "[]" "[]"] g1 by (metis fst_conv prod.collapse)
    show ?thesis
      using True
      by (cases res2)
         (simp_all add: weatherHandler_unfold [OF _ _ s1 [unfolded Inr] g1]
            weatherHandler_unfold [OF _ _ s2 [unfolded Inr] g2])
  qed
qed

lemma after_A_response:
  "fst (handleCepRequest L env net w r (after_A L env net rs t)) = fst (handleCepRequest L env net w r t)"
  by (rule handleCepRequest_answer) simp

lemma after_B_response:
  "fst (weatherHandler L key net w r (after_B L key net rs t)) = fst (weatherHandler L key net w r t)"
  by (rule weatherHandler_answer) simp_all

text \<open>
  Claim C9. Both handlers are deterministic, and no state hidden in the process decides
  their output. Take two runs of a handler on the same request and the same writer. The
  runs may differ in all the state of the process outside the request: the environment,
  from which Service A reads \<^verbatim>\<open>SERVICE_B_URL\<close> on every request, the global
  \<^verbatim>\<open>weatherApiKey\<close>, the state of the tracer (the logs \<open>t1\<close> and \<open>t2\<close>) and the network.
  If each dependency gives the same answer in both runs (the downstream answer for
  Service A, the lookup answer and the weather answer for Service B), the two responses
  are identical in status, headers and body. Hidden state does not accumulate either:
  after the process has served any list of earlier requests, the response to a request
  is the one it gives on the initial state.
\<close>

theorem handlers_deterministic:
  "((\<forall>cep. downstream_answer L env1 net1 cep = downstream_answer L env2 net2 cep) \<longrightarrow>
      fst (handleCepRequest L env1 net1 w r t1) = fst (handleCepRequest L env2 net2 w r t2))
   \<and> ((\<forall>cep. lookup_answer L net1' cep = lookup_answer L net2' cep)
       \<and> (\<forall>city. weather_answer L key1 net1' city = weather_answer L key2 net2' city) \<longrightarrow>
      fst (weatherHandler L key1 net1' w' r' t1) = fst (weatherHandler L key2 net2' w' r' t2))
   \<and> fst (handleCepRequest L env1 net1 w r (after_A L env1 net1 rs t1))
       = fst (handleCepRequest L env1 net1 w r t1)
   \<and> fst (weatherHandler L key1 net1' w' r' (after_B L key1 net1' rs' t1))
       = fst (weatherHandler L key1 net1' w' r' t1)"
  by (auto simp: after_A_response after_B_response
      intro: handleCepRequest_answer weatherHandler_answer)

text \<open>
  Two runs of the doubles that differ in the environment, the key, the network and the
  log, and agree on the answers of the dependencies.
\<close>

lemma test_net_elsewhere_downstream:
  "downstream_answer test_lib Map.empty test_net cep
     = downstream_answer test_lib [''SERVICE_B_URL'' \<mapsto> ''http://localhost:9000''] test_net_elsewhere cep"
  by (simp add: downstream_answer_def NewRequestWithContext_def targetURL_def test_lib_def
      test_net_elsewhere_def)

lemma test_net_elsewhere_lookup:
  "lookup_answer test_lib test_net cep = lookup_answer test_lib test_net_elsewhere cep"
  by (simp add: lookup_answer_def NewRequestWithContext_def viacep_url_def test_lib_def
      test_net_elsewhere_def)

lemma test_net_elsewhere_weather:
  "weather_answer test_lib ''test-key'' test_net city
     = weather_answer test_lib ''other-key'' test_net_elsewhere city"
  by (simp add: weather_answer_def NewRequestWithContext_def weather_url_def test_lib_def
      test_net_elsewhere_def)

theorem handlers_deterministic_witness:
  \<open>fst (handleCepRequest test_lib Map.empty test_net new_writer
          (httptest_POST ''{"cep": "99999999"}'') [])
     = fst (handleCepRequest test_lib [''SERVICE_B_URL'' \<mapsto> ''http://localhost:9000'']
              test_net_elsewhere new_writer (httptest_POST ''{"cep": "99999999"}'')
              [SpanStart ''handleCepRequest'', SpanEnd ''handleCepRequest''])
   \<and> fst (weatherHandler test_lib ''test-key'' test_net new_writer (httptest_GET ''/weather/90010000'') [])
     = fst (weatherHandler test_lib ''other-key'' test_net_elsewhere new_writer
              (httptest_GET ''/weather/90010000'')
              [SpanStart ''weatherHandler-orchestration'', SpanEnd ''weatherHandler-orchestration''])\<close>
  using handlers_deterministic [where L = test_lib and ?env1.0 = Map.empty and ?net1.0 = test_net
      and ?env2.0 = "[''SERVICE_B_URL'' \<mapsto> ''http://localhost:9000'']"
      and ?net2.0 = test_net_elsewhere and ?net1' = test_net and ?net2' = test_net_elsewhere
      and ?key1.0 = "''test-key''" and ?key2.0 = "''other-key''"]
    test_net_elsewhere_downstream test_net_elsewhere_lookup test_net_elsewhere_weather
  by simp

text \<open>
  The condition on the answers is needed, because the configuration is read: on one and
  the same network another \<^verbatim>\<open>SERVICE_B_URL\<close> or another key leads to another address, to
  another answer and to another response.
\<close>

lemma configuration_is_read:
  \<open>fst (handleCepRequest test_lib Map.empty test_net new_writer
          (httptest_POST ''{"cep": "99999999"}'') [])
     \<noteq> fst (handleCepRequest test_lib [''SERVICE_B_URL'' \<mapsto> ''http://localhost:9000''] test_net
              new_writer (httptest_POST ''{"cep": "99999999"}'') [])
   \<and> fst (weatherHandler test_lib ''test-key'' test_net new_writer (httptest_GET ''/weather/90010000'') [])
     \<noteq> fst (weatherHandler test_lib ''other-key'' test_net new_writer
              (httptest_GET ''/weather/90010000'') [])\<close>
  by (simp add: handleCepRequest_def forwardRequestToServiceB_def weatherHandler_def SearchCep_def
      GetWeather_def test_eval cep_eval Let_def http_Error_new_writer relay_new_writer
      checkWriteHeaderCode_def format_d_def digits.simps)

end
